theory Spec2Isabelle
  imports Complex_Main "HOL-Library.Multiset"
begin

section \<open>Wind impact analyzer (wind_impact_analyzer.py)\<close>

text \<open>
  Python floats are read as real numbers: every threshold of the analyzer (3.5, 12.5, 25.0,
  0.0, 80) is a binary fraction, so the comparisons of the source are the comparisons below;
  the rounding of the arithmetic (the cubic capacity curve, the division of a time difference
  by 3600) is not part of the model. A \<open>datetime\<close> is the number of microseconds since the
  epoch, which is the resolution of the Python type.
\<close>

type_synonym timestamp = int

definition CUT_IN_SPEED :: real where "CUT_IN_SPEED = 3.5"
definition RATED_SPEED :: real where "RATED_SPEED = 12.5"
definition CUT_OUT_SPEED :: real where "CUT_OUT_SPEED = 25.0"
definition ICING_TEMP :: real where "ICING_TEMP = 0.0"
definition ICING_HUMIDITY :: real where "ICING_HUMIDITY = 80"

text \<open>The keys of the weather dict that the analyzer reads.\<close>

record weather =
  timestamp :: timestamp
  wind_speed_ms :: real
  wind_gust_ms :: real
  temperature_c :: real
  humidity_pct :: real

datatype issue_type = T_cut_out | T_cut_in | T_sub_optimal | T_icing
datatype severity = Low | Medium | Critical
datatype op_status = S_normal | S_shutdown | S_idle | S_sub_optimal | S_icing_risk
datatype color = Green | Yellow | Orange | Red

text \<open>
  A description is an f-string of the source, kept as its template and the values that fill
  it (the rendering of a float with \<open>:.1f\<close> is not modelled):
  \<^item> \<open>High_winds s g\<close>: "High winds: s m/s (gusts g m/s) - Emergency shutdown";
  \<^item> \<open>Low_wind s\<close>: "Low wind: s m/s - No generation";
  \<^item> \<open>Below_rated s c\<close>: "Below rated speed: s m/s - c% capacity";
  \<^item> \<open>Icing_risk_at t h\<close>: "Icing risk: t C @ h% humidity";
  \<^item> \<open>Eta_warning d e\<close>: the warning sign, the description d, "(ETA: e h)".
\<close>

datatype description =
    High_winds real real
  | Low_wind real
  | Below_rated real real
  | Icing_risk_at real real
  | Eta_warning description real

text \<open>An issue dict; the keys that only some issues carry are optional fields.\<close>

record issue =
  i_type :: issue_type
  i_severity :: severity
  i_description :: description
  i_wind_speed :: "real option"
  i_capacity_factor :: "real option"
  i_temperature :: "real option"
  i_humidity :: "real option"

record status =
  s_timestamp :: timestamp
  operational :: bool
  capacity_factor :: real
  status_label :: op_status
  color :: color
  issues :: "issue list"

definition estimate_capacity_factor :: "real \<Rightarrow> real" where
  "estimate_capacity_factor wind_speed =
     (if wind_speed < CUT_IN_SPEED then 0.0
      else if wind_speed \<ge> RATED_SPEED then 1.0
      else (let normalized = (wind_speed - CUT_IN_SPEED) / (RATED_SPEED - CUT_IN_SPEED)
            in normalized ^ 3))"

definition cut_out_issue :: "real \<Rightarrow> real \<Rightarrow> issue" where
  "cut_out_issue wind_speed wind_gust =
     \<lparr>i_type = T_cut_out, i_severity = Critical,
      i_description = High_winds wind_speed wind_gust,
      i_wind_speed = Some wind_speed, i_capacity_factor = None,
      i_temperature = None, i_humidity = None\<rparr>"

definition cut_in_issue :: "real \<Rightarrow> issue" where
  "cut_in_issue wind_speed =
     \<lparr>i_type = T_cut_in, i_severity = Low,
      i_description = Low_wind wind_speed,
      i_wind_speed = Some wind_speed, i_capacity_factor = None,
      i_temperature = None, i_humidity = None\<rparr>"

definition sub_optimal_issue :: "real \<Rightarrow> real \<Rightarrow> issue" where
  "sub_optimal_issue wind_speed cf =
     \<lparr>i_type = T_sub_optimal, i_severity = Low,
      i_description = Below_rated wind_speed (cf * 100),
      i_wind_speed = Some wind_speed, i_capacity_factor = Some cf,
      i_temperature = None, i_humidity = None\<rparr>"

definition icing_issue :: "real \<Rightarrow> real \<Rightarrow> issue" where
  "icing_issue temp humidity =
     \<lparr>i_type = T_icing, i_severity = Medium,
      i_description = Icing_risk_at temp humidity,
      i_wind_speed = None, i_capacity_factor = None,
      i_temperature = Some temp, i_humidity = Some humidity\<rparr>"

text \<open>The first if/elif/elif chain of \<open>analyze_current_conditions\<close>: the wind band.\<close>

definition wind_band :: "weather \<Rightarrow> status" where
  "wind_band w =
     (let wind_speed = wind_speed_ms w; wind_gust = wind_gust_ms w;
          st = \<lparr>s_timestamp = timestamp w, operational = True, capacity_factor = 1.0,
                status_label = S_normal, color = Green, issues = []\<rparr>
      in if wind_gust \<ge> CUT_OUT_SPEED \<or> wind_speed \<ge> CUT_OUT_SPEED then
           st\<lparr>operational := False, capacity_factor := 0.0, status_label := S_shutdown,
              color := Red, issues := issues st @ [cut_out_issue wind_speed wind_gust]\<rparr>
         else if wind_speed < CUT_IN_SPEED then
           st\<lparr>operational := True, capacity_factor := 0.0, status_label := S_idle,
              color := Yellow, issues := issues st @ [cut_in_issue wind_speed]\<rparr>
         else if wind_speed < RATED_SPEED then
           (let cf = estimate_capacity_factor wind_speed
            in st\<lparr>capacity_factor := cf, status_label := S_sub_optimal, color := Yellow,
                  issues := issues st @ [sub_optimal_issue wind_speed cf]\<rparr>)
         else st)"

text \<open>The second, independent if of \<open>analyze_current_conditions\<close>: the icing check.\<close>

definition icing_check :: "weather \<Rightarrow> status \<Rightarrow> status" where
  "icing_check w st =
     (let temp = temperature_c w; humidity = humidity_pct w
      in if temp \<le> ICING_TEMP \<and> humidity \<ge> ICING_HUMIDITY then
           (let st1 = st\<lparr>issues := issues st @ [icing_issue temp humidity]\<rparr>
            in if color st1 = Green then st1\<lparr>color := Orange, status_label := S_icing_risk\<rparr>
               else st1)
         else st)"

definition analyze_current_conditions :: "weather \<Rightarrow> status" where
  "analyze_current_conditions w = icing_check w (wind_band w)"

definition is_wind_issue :: "issue \<Rightarrow> bool" where
  "is_wind_issue i = (i_type i = T_cut_out \<or> i_type i = T_cut_in \<or> i_type i = T_sub_optimal)"

definition is_icing_issue :: "issue \<Rightarrow> bool" where
  "is_icing_issue i = (i_type i = T_icing)"

lemmas thresholds =
  CUT_IN_SPEED_def RATED_SPEED_def CUT_OUT_SPEED_def ICING_TEMP_def ICING_HUMIDITY_def

lemmas issue_defs =
  cut_out_issue_def cut_in_issue_def sub_optimal_issue_def icing_issue_def

lemmas classify_defs =
  analyze_current_conditions_def icing_check_def wind_band_def

subsection \<open>analyze_forecast\<close>

datatype event_status = Upcoming | Current

record event =
  e_type :: issue_type
  e_severity :: severity
  start_time :: timestamp
  end_time :: "timestamp option"
  eta_hours :: real
  duration_hours :: "real option"
  e_description :: description
  e_status :: event_status

text \<open>\<open>(a - b).total_seconds() / 3600\<close> for two datetimes a and b.\<close>

definition hours_between :: "timestamp \<Rightarrow> timestamp \<Rightarrow> real" where
  "hours_between a b = real_of_int (a - b) / 1000000 / 3600"

text \<open>
  The loop variables \<open>event_start\<close>, \<open>event_type\<close>, \<open>event_severity\<close> and
  \<open>event_description\<close> are one record; the flag \<open>in_event\<close> is true exactly when the loop
  holds such a record (\<open>Some\<close>), since the source reads the four variables only while the
  flag is set.
\<close>

record open_event =
  event_start :: timestamp
  event_type :: issue_type
  event_severity :: severity
  event_description :: description

text \<open>The event appended when an hour without issues ends the run.\<close>

definition closed_event :: "timestamp \<Rightarrow> open_event \<Rightarrow> timestamp \<Rightarrow> event" where
  "closed_event current_time ev hour_timestamp =
     (let eta = hours_between (event_start ev) current_time;
          duration = hours_between hour_timestamp (event_start ev)
      in \<lparr>e_type = event_type ev, e_severity = event_severity ev,
          start_time = event_start ev, end_time = Some hour_timestamp,
          eta_hours = max 0 eta, duration_hours = Some duration,
          e_description = event_description ev,
          e_status = (if eta > 0 then Upcoming else Current)\<rparr>)"

text \<open>The event appended after the loop when the run reaches the end of the forecast.\<close>

definition unfinished_event :: "timestamp \<Rightarrow> open_event \<Rightarrow> event" where
  "unfinished_event current_time ev =
     (let eta = hours_between (event_start ev) current_time
      in \<lparr>e_type = event_type ev, e_severity = event_severity ev,
          start_time = event_start ev, end_time = None,
          eta_hours = max 0 eta, duration_hours = None,
          e_description = event_description ev,
          e_status = (if eta > 0 then Upcoming else Current)\<rparr>)"

text \<open>One iteration of the loop over the forecast, on the pair (events, open event).\<close>

definition forecast_step ::
  "timestamp \<Rightarrow> event list \<times> open_event option \<Rightarrow> weather
     \<Rightarrow> event list \<times> open_event option" where
  "forecast_step current_time st hour =
     (let hour_status = analyze_current_conditions hour
      in case st of
           (events, None) \<Rightarrow>
             (case issues hour_status of
                [] \<Rightarrow> (events, None)
              | i # _ \<Rightarrow>
                  (events, Some \<lparr>event_start = timestamp hour, event_type = i_type i,
                                 event_severity = i_severity i,
                                 event_description = i_description i\<rparr>))
         | (events, Some ev) \<Rightarrow>
             (if issues hour_status = []
              then (events @ [closed_event current_time ev (timestamp hour)], None)
              else (events, Some ev)))"

fun forecast_loop ::
  "timestamp \<Rightarrow> weather list \<Rightarrow> event list \<times> open_event option
     \<Rightarrow> event list \<times> open_event option" where
  "forecast_loop current_time [] st = st"
| "forecast_loop current_time (hour # rest) st =
     forecast_loop current_time rest (forecast_step current_time st hour)"

text \<open>
  \<open>current_time\<close> is always passed: the default of the source reads the clock.
\<close>

definition analyze_forecast :: "weather list \<Rightarrow> timestamp \<Rightarrow> event list" where
  "analyze_forecast forecast current_time =
     (case forecast_loop current_time forecast ([], None) of
        (events, None) \<Rightarrow> events
      | (events, Some ev) \<Rightarrow> events @ [unfinished_event current_time ev])"

subsection \<open>get_overall_status\<close>

record overall =
  current :: status
  upcoming_events :: "event list"
  priority_color :: color
  priority_issue :: "issue option"

text \<open>The issue that the scan builds from an event: type, severity and description only.\<close>

definition event_issue :: "event \<Rightarrow> issue" where
  "event_issue event =
     \<lparr>i_type = e_type event, i_severity = e_severity event,
      i_description = Eta_warning (e_description event) (eta_hours event),
      i_wind_speed = None, i_capacity_factor = None,
      i_temperature = None, i_humidity = None\<rparr>"

text \<open>The loop over the events; the first equation's first branch is the \<open>break\<close>.\<close>

fun overall_loop :: "event list \<Rightarrow> overall \<Rightarrow> overall" where
  "overall_loop [] ov = ov"
| "overall_loop (event # rest) ov =
     (if e_severity event = Critical \<and> eta_hours event < 24 then
        ov\<lparr>priority_color := Red, priority_issue := Some (event_issue event)\<rparr>
      else if e_severity event = Medium \<and> eta_hours event < 12 then
        (if priority_color ov \<noteq> Red then
           overall_loop rest
             (ov\<lparr>priority_color := Orange, priority_issue := Some (event_issue event)\<rparr>)
         else overall_loop rest ov)
      else overall_loop rest ov)"

definition get_overall_status :: "status \<Rightarrow> event list \<Rightarrow> overall" where
  "get_overall_status current_status events =
     overall_loop events
       \<lparr>current = current_status, upcoming_events = events,
        priority_color = color current_status,
        priority_issue = (case issues current_status of [] \<Rightarrow> None | i # _ \<Rightarrow> Some i)\<rparr>"

text \<open>The two tests of the scan, named for the statements below.\<close>

definition critical_soon :: "event \<Rightarrow> bool" where
  "critical_soon event = (e_severity event = Critical \<and> eta_hours event < 24)"

definition medium_soon :: "event \<Rightarrow> bool" where
  "medium_soon event = (e_severity event = Medium \<and> eta_hours event < 12)"

text \<open>
  Statements about event lists. \<open>precedes a b\<close>: the event a is closed, ends after it
  starts, and ends no later than b starts.
\<close>

definition precedes :: "event \<Rightarrow> event \<Rightarrow> bool" where
  "precedes a b =
     (case end_time a of None \<Rightarrow> False | Some t \<Rightarrow> start_time a < t \<and> t \<le> start_time b)"

text \<open>
  The invariant of the loop of \<open>analyze_forecast\<close>, for the hours still to be read: the
  events so far are closed and lie in order, each ends before every hour still to come and
  no later than the open run starts, and the open run starts before every hour still to come.
\<close>

definition scan_inv :: "weather list \<Rightarrow> event list \<times> open_event option \<Rightarrow> bool" where
  "scan_inv rest st =
     (case st of (events, cur) \<Rightarrow>
        sorted_wrt precedes events
        \<and> (\<forall>e \<in> set events.
              case end_time e of
                None \<Rightarrow> False
              | Some t \<Rightarrow> start_time e < t
                  \<and> (\<forall>h \<in> set rest. t < timestamp h)
                  \<and> (case cur of None \<Rightarrow> True | Some ev \<Rightarrow> t \<le> event_start ev))
        \<and> (case cur of None \<Rightarrow> True
            | Some ev \<Rightarrow> \<forall>h \<in> set rest. event_start ev < timestamp h))"

text \<open>Fixtures: the hour n of a forecast with a given wind speed, mild and dry.\<close>

definition example_hour :: "int \<Rightarrow> real \<Rightarrow> weather" where
  "example_hour n speed =
     \<lparr>timestamp = n * 3600000000, wind_speed_ms = speed, wind_gust_ms = speed + 2,
      temperature_c = 10, humidity_pct = 50\<rparr>"

definition example_event :: "severity \<Rightarrow> real \<Rightarrow> event" where
  "example_event sev eta =
     \<lparr>e_type = (if sev = Critical then T_cut_out else T_icing), e_severity = sev,
      start_time = 0, end_time = None, eta_hours = eta, duration_hours = None,
      e_description = (if sev = Critical then High_winds 30 32 else Icing_risk_at (-1) 85),
      e_status = Upcoming\<rparr>"

lemmas forecast_defs =
  analyze_forecast_def forecast_step_def closed_event_def unfinished_event_def
  hours_between_def example_hour_def

section \<open>Weather front tracker (weather_front_tracker.py)\<close>

text \<open>
  A grid point dict. The hourly forecast that a point carries is never read by the detectors
  but takes part in the comparison \<open>p != point\<close> of two dicts, so it stays in the record,
  with a type of its own.
\<close>

record 'h grid_point =
  lat :: real
  lon :: real
  temperature :: real
  pressure :: real
  pressure_trend :: real
  wind_speed :: real
  wind_direction :: real
  weather_code :: int
  hourly_forecast :: 'h

datatype system_type = High_pressure | Low_pressure

record pressure_system =
  ps_type :: system_type
  ps_lat :: real
  ps_lon :: real
  ps_pressure :: real
  ps_symbol :: string

definition high_system :: "'h grid_point \<Rightarrow> pressure_system" where
  "high_system point =
     \<lparr>ps_type = High_pressure, ps_lat = lat point, ps_lon = lon point,
      ps_pressure = pressure point, ps_symbol = ''H''\<rparr>"

definition low_system :: "'h grid_point \<Rightarrow> pressure_system" where
  "low_system point =
     \<lparr>ps_type = Low_pressure, ps_lat = lat point, ps_lon = lon point,
      ps_pressure = pressure point, ps_symbol = ''L''\<rparr>"

text \<open>The list comprehension \<open>nearby\<close> of \<open>detect_pressure_systems\<close>.\<close>

definition nearby_points :: "'h grid_point list \<Rightarrow> 'h grid_point \<Rightarrow> 'h grid_point list" where
  "nearby_points grid_data point =
     filter (\<lambda>p. \<bar>lat p - lat point\<bar> < 2 \<and> \<bar>lon p - lon point\<bar> < 2 \<and> p \<noteq> point) grid_data"

text \<open>The loop over the points; the result lists what \<open>systems.append\<close> adds, in order.\<close>

fun systems_loop :: "'h grid_point list \<Rightarrow> 'h grid_point list \<Rightarrow> pressure_system list" where
  "systems_loop grid_data [] = []"
| "systems_loop grid_data (point # rest) =
     (let nearby = nearby_points grid_data point
      in if nearby = [] then systems_loop grid_data rest
         else if list_all (\<lambda>n. pressure point > pressure n) nearby then
           (if pressure point > 1015
            then high_system point # systems_loop grid_data rest
            else systems_loop grid_data rest)
         else if list_all (\<lambda>n. pressure point < pressure n) nearby then
           (if pressure point < 1010
            then low_system point # systems_loop grid_data rest
            else systems_loop grid_data rest)
         else systems_loop grid_data rest)"

definition detect_pressure_systems :: "'h grid_point list \<Rightarrow> pressure_system list" where
  "detect_pressure_systems grid_data =
     (if length grid_data < 9 then [] else systems_loop grid_data grid_data)"




subsection \<open>detect_fronts\<close>

datatype front_type = Cold | Warm

text \<open>The symbol of a front is a triangle pointing down (cold) or up (warm).\<close>

datatype front_symbol = Triangle_down | Triangle_up

record front =
  f_type :: front_type
  f_lat :: real
  f_lon :: real
  f_color :: string
  f_symbol :: front_symbol
  f_gradient :: real
  f_temp_diff :: real

text \<open>\<open>((p2.lat - p1.lat)**2 + (p2.lon - p1.lon)**2)**0.5\<close>\<close>

definition degree_distance :: "'h grid_point \<Rightarrow> 'h grid_point \<Rightarrow> real" where
  "degree_distance p1 p2 = sqrt ((lat p2 - lat p1)\<^sup>2 + (lon p2 - lon p1)\<^sup>2)"

text \<open>The body of the loop over adjacent pairs: the fronts that one pair appends.\<close>

definition pair_fronts :: "'h grid_point \<Rightarrow> 'h grid_point \<Rightarrow> front list" where
  "pair_fronts p1 p2 =
     (let temp_diff = \<bar>temperature p2 - temperature p1\<bar>;
          distance = degree_distance p1 p2
      in if distance > 0 then
           (let gradient = temp_diff / distance
            in if gradient > 1.5 then
                 [\<lparr>f_type = (if temperature p2 < temperature p1 then Cold else Warm),
                   f_lat = (lat p1 + lat p2) / 2, f_lon = (lon p1 + lon p2) / 2,
                   f_color = (if temperature p2 < temperature p1
                              then ''#0000FF'' else ''#FF0000''),
                   f_symbol = (if temperature p2 < temperature p1
                               then Triangle_down else Triangle_up),
                   f_gradient = gradient, f_temp_diff = temp_diff\<rparr>]
               else [])
         else [])"

text \<open>\<open>for i in range(len(sorted_data) - 1)\<close>, on the pairs i, i + 1.\<close>

fun fronts_loop :: "'h grid_point list \<Rightarrow> front list" where
  "fronts_loop (p1 # p2 # rest) = pair_fronts p1 p2 @ fronts_loop (p2 # rest)"
| "fronts_loop _ = []"

text \<open>Python's \<open>sorted\<close> is stable, as the insertion sort \<open>sort_key\<close> is.\<close>

definition detect_fronts :: "'h grid_point list \<Rightarrow> front list" where
  "detect_fronts grid_data = fronts_loop (sort_key lat grid_data)"

text \<open>Fixture: a grid point with a position, a temperature and a pressure.\<close>

definition example_point :: "real \<Rightarrow> real \<Rightarrow> real \<Rightarrow> real \<Rightarrow> unit grid_point" where
  "example_point la lo temp pres =
     \<lparr>lat = la, lon = lo, temperature = temp, pressure = pres, pressure_trend = 0,
      wind_speed = 5, wind_direction = 270, weather_code = 0, hourly_forecast = ()\<rparr>"

definition example_grid :: "real \<Rightarrow> unit grid_point list" where
  "example_grid centre =
     [example_point 50 0 10 1005, example_point 50 1 10 1012, example_point 50 2 10 1012,
      example_point 51 0 10 1012, example_point 51 1 10 centre, example_point 51 2 10 1012,
      example_point 52 0 10 1012, example_point 52 1 10 1012, example_point 52 2 10 1012]"

lemmas grid_defs =
  example_grid_def example_point_def nearby_points_def high_system_def low_system_def

section \<open>Classifier: the cut-out branch\<close>

text \<open>
  C4. Whenever the sustained wind speed or the gust is at least 25.0 m/s, the classifier
  returns status shutdown, capacity factor 0, operational false and colour red, whatever the
  other fields are; the first issue is the cut_out issue of severity critical, it is the only
  wind-band issue of the list, and no cut_in or sub_optimal issue is present.
\<close>

theorem cut_out_shutdown:
  assumes "wind_speed_ms w \<ge> 25.0 \<or> wind_gust_ms w \<ge> 25.0"
  shows "status_label (analyze_current_conditions w) = S_shutdown
       \<and> capacity_factor (analyze_current_conditions w) = 0
       \<and> operational (analyze_current_conditions w) = False
       \<and> color (analyze_current_conditions w) = Red
       \<and> filter is_wind_issue (issues (analyze_current_conditions w))
           = [cut_out_issue (wind_speed_ms w) (wind_gust_ms w)]
       \<and> hd (issues (analyze_current_conditions w))
           = cut_out_issue (wind_speed_ms w) (wind_gust_ms w)
       \<and> i_type (cut_out_issue (wind_speed_ms w) (wind_gust_ms w)) = T_cut_out
       \<and> i_severity (cut_out_issue (wind_speed_ms w) (wind_gust_ms w)) = Critical
       \<and> (\<forall>i \<in> set (issues (analyze_current_conditions w)).
            i_type i \<noteq> T_cut_in \<and> i_type i \<noteq> T_sub_optimal)"
  using assms
  by (auto simp: classify_defs thresholds issue_defs is_wind_issue_def Let_def)

theorem cut_out_shutdown_witness:
  "((8::real) \<ge> 25.0 \<or> (26::real) \<ge> 25.0)
   \<and> status_label (analyze_current_conditions
      \<lparr>timestamp = 0, wind_speed_ms = 8, wind_gust_ms = 26,
       temperature_c = -3, humidity_pct = 90\<rparr>) = S_shutdown
   \<and> color (analyze_current_conditions
      \<lparr>timestamp = 0, wind_speed_ms = 8, wind_gust_ms = 26,
       temperature_c = -3, humidity_pct = 90\<rparr>) = Red
   \<and> issues (analyze_current_conditions
      \<lparr>timestamp = 0, wind_speed_ms = 8, wind_gust_ms = 26,
       temperature_c = -3, humidity_pct = 90\<rparr>)
       = [cut_out_issue 8 26, icing_issue (-3) 90]"
  using cut_out_shutdown [of "\<lparr>timestamp = 0, wind_speed_ms = 8, wind_gust_ms = 26,
       temperature_c = -3, humidity_pct = 90\<rparr>"]
  by (simp add: classify_defs thresholds Let_def)

section \<open>Classifier: the sub-optimal band\<close>

text \<open>
  C5. For every wind speed s with 3.5 \<le> s < 12.5 and gust below 25.0, the classifier returns
  status sub_optimal and colour yellow, its first issue is the sub_optimal issue of severity
  low, and the capacity factor is ((s - 3.5) / 9.0) cubed; that capacity factor lies in
  [0, 1], is 0 at s = 3.5 and is strictly smaller than the capacity factor of every sample
  of the band with a larger wind speed.
\<close>

theorem sub_optimal_band:
  assumes "3.5 \<le> wind_speed_ms w" and "wind_speed_ms w < 12.5" and "wind_gust_ms w < 25.0"
  shows "status_label (analyze_current_conditions w) = S_sub_optimal
       \<and> color (analyze_current_conditions w) = Yellow
       \<and> capacity_factor (analyze_current_conditions w) = ((wind_speed_ms w - 3.5) / 9.0) ^ 3
       \<and> hd (issues (analyze_current_conditions w))
           = sub_optimal_issue (wind_speed_ms w) (((wind_speed_ms w - 3.5) / 9.0) ^ 3)
       \<and> issues (analyze_current_conditions w) \<noteq> []
       \<and> i_type (hd (issues (analyze_current_conditions w))) = T_sub_optimal
       \<and> i_severity (hd (issues (analyze_current_conditions w))) = Low
       \<and> 0 \<le> capacity_factor (analyze_current_conditions w)
       \<and> capacity_factor (analyze_current_conditions w) \<le> 1
       \<and> (wind_speed_ms w = 3.5 \<longrightarrow> capacity_factor (analyze_current_conditions w) = 0)
       \<and> (\<forall>w'. wind_speed_ms w < wind_speed_ms w' \<and> wind_speed_ms w' < 12.5
                 \<and> wind_gust_ms w' < 25.0
             \<longrightarrow> capacity_factor (analyze_current_conditions w)
                   < capacity_factor (analyze_current_conditions w'))"
proof -
  let ?s = "wind_speed_ms w"
  have cf: "\<And>v. 3.5 \<le> wind_speed_ms v \<Longrightarrow> wind_speed_ms v < 12.5 \<Longrightarrow> wind_gust_ms v < 25.0
      \<Longrightarrow> capacity_factor (analyze_current_conditions v) = ((wind_speed_ms v - 3.5) / 9.0) ^ 3"
    by (simp add: classify_defs thresholds estimate_capacity_factor_def Let_def)
  have shape: "status_label (analyze_current_conditions w) = S_sub_optimal
       \<and> color (analyze_current_conditions w) = Yellow
       \<and> hd (issues (analyze_current_conditions w))
           = sub_optimal_issue ?s (((?s - 3.5) / 9.0) ^ 3)
       \<and> issues (analyze_current_conditions w) \<noteq> []"
    using assms
    by (simp add: classify_defs thresholds estimate_capacity_factor_def Let_def)
  have lo: "0 \<le> (?s - 3.5) / 9.0" using assms by simp
  have hi: "(?s - 3.5) / 9.0 \<le> 1" using assms by simp
  have range: "0 \<le> ((?s - 3.5) / 9.0) ^ 3 \<and> ((?s - 3.5) / 9.0) ^ 3 \<le> 1"
    using lo hi by (simp add: power_le_one)
  have mono: "capacity_factor (analyze_current_conditions w)
                < capacity_factor (analyze_current_conditions w')"
    if "?s < wind_speed_ms w'" "wind_speed_ms w' < 12.5" "wind_gust_ms w' < 25.0" for w'
  proof -
    have "(?s - 3.5) / 9.0 < (wind_speed_ms w' - 3.5) / 9.0" using that by simp
    then have "((?s - 3.5) / 9.0) ^ 3 < ((wind_speed_ms w' - 3.5) / 9.0) ^ 3"
      using lo by (intro power_strict_mono) simp_all
    moreover have "3.5 \<le> wind_speed_ms w'" using assms that by simp
    ultimately show ?thesis using cf [of w] cf [of w'] assms that by simp
  qed
  have kind: "i_type (sub_optimal_issue ?s (((?s - 3.5) / 9.0) ^ 3)) = T_sub_optimal
      \<and> i_severity (sub_optimal_issue ?s (((?s - 3.5) / 9.0) ^ 3)) = Low"
    by (simp add: sub_optimal_issue_def)
  have zero: "?s = 3.5 \<longrightarrow> capacity_factor (analyze_current_conditions w) = 0"
    using cf [OF assms] by simp
  from shape cf [OF assms] range mono kind zero show ?thesis
    by metis
qed

theorem sub_optimal_band_witness:
  "(3.5::real) \<le> 8 \<and> (8::real) < 12.5 \<and> (10::real) < 25.0
   \<and> status_label (analyze_current_conditions
        \<lparr>timestamp = 0, wind_speed_ms = 8, wind_gust_ms = 10,
         temperature_c = 10, humidity_pct = 50\<rparr>) = S_sub_optimal
   \<and> capacity_factor (analyze_current_conditions
        \<lparr>timestamp = 0, wind_speed_ms = 8, wind_gust_ms = 10,
         temperature_c = 10, humidity_pct = 50\<rparr>) = 1 / 8
   \<and> capacity_factor (analyze_current_conditions
        \<lparr>timestamp = 0, wind_speed_ms = 8, wind_gust_ms = 10,
         temperature_c = 10, humidity_pct = 50\<rparr>)
       < capacity_factor (analyze_current_conditions
        \<lparr>timestamp = 0, wind_speed_ms = 11, wind_gust_ms = 12,
         temperature_c = -2, humidity_pct = 95\<rparr>)"
  using sub_optimal_band [of "\<lparr>timestamp = 0, wind_speed_ms = 8, wind_gust_ms = 10,
         temperature_c = 10, humidity_pct = 50\<rparr>"]
  by (simp add: power3_eq_cube)

section \<open>Classifier: the shape of the issue list\<close>

text \<open>
  C10. For every weather sample the issue list of the classifier is its wind-band issues
  followed by its icing issues, with at most one of each (cut_out, cut_in and sub_optimal
  exclude each other), so it has at most two elements; the list is empty exactly when the
  status is normal, and the status is normal exactly when the colour is green.
\<close>

theorem issues_shape:
  "issues (analyze_current_conditions w)
     = filter is_wind_issue (issues (analyze_current_conditions w))
       @ filter is_icing_issue (issues (analyze_current_conditions w))
   \<and> length (filter is_wind_issue (issues (analyze_current_conditions w))) \<le> 1
   \<and> length (filter is_icing_issue (issues (analyze_current_conditions w))) \<le> 1
   \<and> length (issues (analyze_current_conditions w)) \<le> 2
   \<and> (issues (analyze_current_conditions w) = []
        \<longleftrightarrow> status_label (analyze_current_conditions w) = S_normal)
   \<and> (status_label (analyze_current_conditions w) = S_normal
        \<longleftrightarrow> color (analyze_current_conditions w) = Green)"
  by (simp add: classify_defs issue_defs is_wind_issue_def is_icing_issue_def Let_def)

theorem issues_shape_witness:
  "issues (analyze_current_conditions
      \<lparr>timestamp = 0, wind_speed_ms = 2, wind_gust_ms = 3,
       temperature_c = -1, humidity_pct = 85\<rparr>) = [cut_in_issue 2, icing_issue (-1) 85]
   \<and> issues (analyze_current_conditions
      \<lparr>timestamp = 0, wind_speed_ms = 15, wind_gust_ms = 18,
       temperature_c = 4, humidity_pct = 85\<rparr>) = []
   \<and> status_label (analyze_current_conditions
      \<lparr>timestamp = 0, wind_speed_ms = 15, wind_gust_ms = 18,
       temperature_c = 4, humidity_pct = 85\<rparr>) = S_normal
   \<and> color (analyze_current_conditions
      \<lparr>timestamp = 0, wind_speed_ms = 15, wind_gust_ms = 18,
       temperature_c = 4, humidity_pct = 85\<rparr>) = Green"
  using issues_shape [of "\<lparr>timestamp = 0, wind_speed_ms = 15, wind_gust_ms = 18,
       temperature_c = 4, humidity_pct = 85\<rparr>"]
  by (simp add: classify_defs thresholds Let_def)

section \<open>Classifier: the icing check\<close>

text \<open>
  C1, as the spec states it, fails on the code: at wind speed exactly 3.5 m/s, temperature -1
  and humidity 85% the sub_optimal branch has already set the colour to yellow, and the icing
  check recolours a status only when its colour is still green. The result is yellow and
  sub_optimal, not orange and icing_risk.
\<close>

theorem icing_at_cut_in_counterexample:
  "color (analyze_current_conditions
      \<lparr>timestamp = 0, wind_speed_ms = 3.5, wind_gust_ms = 5,
       temperature_c = -1, humidity_pct = 85\<rparr>) = Yellow
   \<and> status_label (analyze_current_conditions
      \<lparr>timestamp = 0, wind_speed_ms = 3.5, wind_gust_ms = 5,
       temperature_c = -1, humidity_pct = 85\<rparr>) = S_sub_optimal
   \<and> \<not> (color (analyze_current_conditions
      \<lparr>timestamp = 0, wind_speed_ms = 3.5, wind_gust_ms = 5,
       temperature_c = -1, humidity_pct = 85\<rparr>) = Orange
      \<and> status_label (analyze_current_conditions
      \<lparr>timestamp = 0, wind_speed_ms = 3.5, wind_gust_ms = 5,
       temperature_c = -1, humidity_pct = 85\<rparr>) = S_icing_risk)"
  by (simp add: classify_defs thresholds Let_def)

text \<open>
  C1, amended. Whenever temperature \<le> 0.0 and humidity \<ge> 80, the icing issue (severity
  medium) is appended as the last issue. Colour and status become orange and icing_risk only
  when no wind-band issue was raised (12.5 \<le> speed < 25, gust < 25); a cut-out result stays
  red and shutdown, an idle result stays yellow and idle, and a sub-optimal result stays yellow
  and sub_optimal. At wind speed exactly 3.5 m/s (gust below cut-out) the result is
  sub_optimal with capacity factor 0, and the issue list is the sub_optimal issue followed by
  the icing issue.
\<close>

theorem icing_escalates_only_green:
  assumes "temperature_c w \<le> 0.0" and "humidity_pct w \<ge> 80"
  shows "issues (analyze_current_conditions w) \<noteq> []
       \<and> last (issues (analyze_current_conditions w))
           = icing_issue (temperature_c w) (humidity_pct w)
       \<and> i_type (last (issues (analyze_current_conditions w))) = T_icing
       \<and> i_severity (last (issues (analyze_current_conditions w))) = Medium
       \<and> (12.5 \<le> wind_speed_ms w \<and> wind_speed_ms w < 25.0 \<and> wind_gust_ms w < 25.0
            \<longrightarrow> color (analyze_current_conditions w) = Orange
              \<and> status_label (analyze_current_conditions w) = S_icing_risk
              \<and> issues (analyze_current_conditions w)
                  = [icing_issue (temperature_c w) (humidity_pct w)])
       \<and> (wind_speed_ms w \<ge> 25.0 \<or> wind_gust_ms w \<ge> 25.0
            \<longrightarrow> color (analyze_current_conditions w) = Red
              \<and> status_label (analyze_current_conditions w) = S_shutdown)
       \<and> (wind_speed_ms w < 3.5 \<and> wind_gust_ms w < 25.0
            \<longrightarrow> color (analyze_current_conditions w) = Yellow
              \<and> status_label (analyze_current_conditions w) = S_idle)
       \<and> (3.5 \<le> wind_speed_ms w \<and> wind_speed_ms w < 12.5 \<and> wind_gust_ms w < 25.0
            \<longrightarrow> color (analyze_current_conditions w) = Yellow
              \<and> status_label (analyze_current_conditions w) = S_sub_optimal)
       \<and> (wind_speed_ms w = 3.5 \<and> wind_gust_ms w < 25.0
            \<longrightarrow> capacity_factor (analyze_current_conditions w) = 0
              \<and> issues (analyze_current_conditions w)
                  = [sub_optimal_issue 3.5 0,
                     icing_issue (temperature_c w) (humidity_pct w)])"
proof -
  have general: "issues (analyze_current_conditions w) \<noteq> []
       \<and> last (issues (analyze_current_conditions w))
           = icing_issue (temperature_c w) (humidity_pct w)
       \<and> (12.5 \<le> wind_speed_ms w \<and> wind_speed_ms w < 25.0 \<and> wind_gust_ms w < 25.0
            \<longrightarrow> color (analyze_current_conditions w) = Orange
              \<and> status_label (analyze_current_conditions w) = S_icing_risk
              \<and> issues (analyze_current_conditions w)
                  = [icing_issue (temperature_c w) (humidity_pct w)])
       \<and> (wind_speed_ms w \<ge> 25.0 \<or> wind_gust_ms w \<ge> 25.0
            \<longrightarrow> color (analyze_current_conditions w) = Red
              \<and> status_label (analyze_current_conditions w) = S_shutdown)
       \<and> (wind_speed_ms w < 3.5 \<and> wind_gust_ms w < 25.0
            \<longrightarrow> color (analyze_current_conditions w) = Yellow
              \<and> status_label (analyze_current_conditions w) = S_idle)
       \<and> (3.5 \<le> wind_speed_ms w \<and> wind_speed_ms w < 12.5 \<and> wind_gust_ms w < 25.0
            \<longrightarrow> color (analyze_current_conditions w) = Yellow
              \<and> status_label (analyze_current_conditions w) = S_sub_optimal)"
    using assms
    by (simp add: classify_defs thresholds Let_def)
  have kind: "i_type (icing_issue (temperature_c w) (humidity_pct w)) = T_icing
       \<and> i_severity (icing_issue (temperature_c w) (humidity_pct w)) = Medium"
    by (simp add: icing_issue_def)
  have boundary: "capacity_factor (analyze_current_conditions w) = 0
       \<and> issues (analyze_current_conditions w)
            = [sub_optimal_issue 3.5 0, icing_issue (temperature_c w) (humidity_pct w)]"
    if s: "wind_speed_ms w = 3.5" and g: "wind_gust_ms w < 25.0"
    using assms g
    by (simp add: classify_defs thresholds estimate_capacity_factor_def Let_def s)
  from general kind boundary show ?thesis
    by simp
qed

theorem icing_escalates_only_green_witness:
  "(-1::real) \<le> 0.0 \<and> (85::real) \<ge> 80
   \<and> status_label (analyze_current_conditions
      \<lparr>timestamp = 0, wind_speed_ms = 3.5, wind_gust_ms = 5,
       temperature_c = -1, humidity_pct = 85\<rparr>) = S_sub_optimal
   \<and> color (analyze_current_conditions
      \<lparr>timestamp = 0, wind_speed_ms = 3.5, wind_gust_ms = 5,
       temperature_c = -1, humidity_pct = 85\<rparr>) = Yellow
   \<and> capacity_factor (analyze_current_conditions
      \<lparr>timestamp = 0, wind_speed_ms = 3.5, wind_gust_ms = 5,
       temperature_c = -1, humidity_pct = 85\<rparr>) = 0
   \<and> issues (analyze_current_conditions
      \<lparr>timestamp = 0, wind_speed_ms = 3.5, wind_gust_ms = 5,
       temperature_c = -1, humidity_pct = 85\<rparr>)
       = [sub_optimal_issue 3.5 0, icing_issue (-1) 85]
   \<and> color (analyze_current_conditions
      \<lparr>timestamp = 0, wind_speed_ms = 15, wind_gust_ms = 18,
       temperature_c = -1, humidity_pct = 85\<rparr>) = Orange
   \<and> status_label (analyze_current_conditions
      \<lparr>timestamp = 0, wind_speed_ms = 15, wind_gust_ms = 18,
       temperature_c = -1, humidity_pct = 85\<rparr>) = S_icing_risk"
  using icing_escalates_only_green [of "\<lparr>timestamp = 0, wind_speed_ms = 3.5, wind_gust_ms = 5,
       temperature_c = -1, humidity_pct = 85\<rparr>"]
    icing_escalates_only_green [of "\<lparr>timestamp = 0, wind_speed_ms = 15, wind_gust_ms = 18,
       temperature_c = -1, humidity_pct = 85\<rparr>"]
  by simp

section \<open>Event extraction: one run of bad hours\<close>

text \<open>
  C2, as the spec states it, fails on the code twice over. A wind speed of 8 m/s is below the
  rated speed, so the classifier raises a sub_optimal issue for the "ok" hours too: all four
  hours carry an issue, the run opens at the first hour and never closes, and the single
  event has type sub_optimal, starts at the first hour and has neither end time nor duration.
  And a run that opens at hour 1 and is closed by hour 3 lasts 2.0 hours, not 1.0.
\<close>

theorem ok_bad_bad_ok_counterexample:
  "length (analyze_forecast
      [example_hour 0 8, example_hour 1 30, example_hour 2 30, example_hour 3 8] 0) = 1
   \<and> e_type (hd (analyze_forecast
      [example_hour 0 8, example_hour 1 30, example_hour 2 30, example_hour 3 8] 0))
       = T_sub_optimal
   \<and> start_time (hd (analyze_forecast
      [example_hour 0 8, example_hour 1 30, example_hour 2 30, example_hour 3 8] 0))
       = timestamp (example_hour 0 8)
   \<and> start_time (hd (analyze_forecast
      [example_hour 0 8, example_hour 1 30, example_hour 2 30, example_hour 3 8] 0))
       \<noteq> timestamp (example_hour 1 30)
   \<and> end_time (hd (analyze_forecast
      [example_hour 0 8, example_hour 1 30, example_hour 2 30, example_hour 3 8] 0)) = None
   \<and> duration_hours (hd (analyze_forecast
      [example_hour 0 8, example_hour 1 30, example_hour 2 30, example_hour 3 8] 0))
       \<noteq> Some 1"
  by (simp add: forecast_defs classify_defs thresholds issue_defs Let_def)

lemma no_issue_hour:
  assumes "12.5 \<le> wind_speed_ms w" and "wind_speed_ms w < 25.0" and "wind_gust_ms w < 25.0"
    and "\<not> (temperature_c w \<le> 0.0 \<and> humidity_pct w \<ge> 80)"
  shows "issues (analyze_current_conditions w) = []"
  using assms by (auto simp: classify_defs thresholds Let_def)

lemma cut_out_hour:
  assumes "wind_speed_ms w = 30"
  shows "\<exists>more. issues (analyze_current_conditions w)
           = cut_out_issue 30 (wind_gust_ms w) # more"
  using assms by (auto simp: classify_defs thresholds Let_def)

text \<open>
  C2, amended. For a forecast [ok, bad, bad, ok] in which bad is a wind speed of 30 m/s and ok
  is an hour without any issue (wind speed at least 12.5 and below 25, gust below 25, no
  icing conditions), the extractor returns exactly one event: its start time is the first bad
  hour's timestamp, its end time is the second ok hour's timestamp, and its duration is
  (end time - start time) in hours, which is 2.0 when the samples are hourly.
\<close>

theorem ok_bad_bad_ok_event:
  assumes ok1: "12.5 \<le> wind_speed_ms ok1 \<and> wind_speed_ms ok1 < 25.0 \<and> wind_gust_ms ok1 < 25.0
               \<and> \<not> (temperature_c ok1 \<le> 0.0 \<and> humidity_pct ok1 \<ge> 80)"
    and ok2: "12.5 \<le> wind_speed_ms ok2 \<and> wind_speed_ms ok2 < 25.0 \<and> wind_gust_ms ok2 < 25.0
               \<and> \<not> (temperature_c ok2 \<le> 0.0 \<and> humidity_pct ok2 \<ge> 80)"
    and bad1: "wind_speed_ms bad1 = 30" and bad2: "wind_speed_ms bad2 = 30"
  shows "length (analyze_forecast [ok1, bad1, bad2, ok2] now) = 1
       \<and> e_type (hd (analyze_forecast [ok1, bad1, bad2, ok2] now)) = T_cut_out
       \<and> e_severity (hd (analyze_forecast [ok1, bad1, bad2, ok2] now)) = Critical
       \<and> start_time (hd (analyze_forecast [ok1, bad1, bad2, ok2] now)) = timestamp bad1
       \<and> end_time (hd (analyze_forecast [ok1, bad1, bad2, ok2] now)) = Some (timestamp ok2)
       \<and> duration_hours (hd (analyze_forecast [ok1, bad1, bad2, ok2] now))
           = Some (hours_between (timestamp ok2) (timestamp bad1))
       \<and> eta_hours (hd (analyze_forecast [ok1, bad1, bad2, ok2] now))
           = max 0 (hours_between (timestamp bad1) now)
       \<and> (timestamp ok2 = timestamp bad1 + 2 * 3600000000
            \<longrightarrow> duration_hours (hd (analyze_forecast [ok1, bad1, bad2, ok2] now)) = Some 2)"
proof -
  have e1: "issues (analyze_current_conditions ok1) = []"
    using ok1 by (intro no_issue_hour) simp_all
  have e2: "issues (analyze_current_conditions ok2) = []"
    using ok2 by (intro no_issue_hour) simp_all
  obtain m1 where b1: "issues (analyze_current_conditions bad1)
      = cut_out_issue 30 (wind_gust_ms bad1) # m1"
    using cut_out_hour [OF bad1] by blast
  obtain m2 where b2: "issues (analyze_current_conditions bad2)
      = cut_out_issue 30 (wind_gust_ms bad2) # m2"
    using cut_out_hour [OF bad2] by blast
  have run: "analyze_forecast [ok1, bad1, bad2, ok2] now
      = [closed_event now
           \<lparr>event_start = timestamp bad1, event_type = T_cut_out, event_severity = Critical,
            event_description = High_winds 30 (wind_gust_ms bad1)\<rparr> (timestamp ok2)]"
    by (simp add: analyze_forecast_def forecast_step_def e1 e2 b1 b2 cut_out_issue_def)
  show ?thesis
    unfolding run by (simp add: closed_event_def hours_between_def Let_def)
qed

theorem ok_bad_bad_ok_event_witness:
  "(12.5 \<le> wind_speed_ms (example_hour 0 15) \<and> wind_speed_ms (example_hour 0 15) < 25.0
      \<and> wind_gust_ms (example_hour 0 15) < 25.0
      \<and> \<not> (temperature_c (example_hour 0 15) \<le> 0.0 \<and> humidity_pct (example_hour 0 15) \<ge> 80))
   \<and> (12.5 \<le> wind_speed_ms (example_hour 3 15) \<and> wind_speed_ms (example_hour 3 15) < 25.0
      \<and> wind_gust_ms (example_hour 3 15) < 25.0
      \<and> \<not> (temperature_c (example_hour 3 15) \<le> 0.0 \<and> humidity_pct (example_hour 3 15) \<ge> 80))
   \<and> wind_speed_ms (example_hour 1 30) = 30 \<and> wind_speed_ms (example_hour 2 30) = 30
   \<and> start_time (hd (analyze_forecast
        [example_hour 0 15, example_hour 1 30, example_hour 2 30, example_hour 3 15] 0))
       = 3600000000
   \<and> end_time (hd (analyze_forecast
        [example_hour 0 15, example_hour 1 30, example_hour 2 30, example_hour 3 15] 0))
       = Some 10800000000
   \<and> duration_hours (hd (analyze_forecast
        [example_hour 0 15, example_hour 1 30, example_hour 2 30, example_hour 3 15] 0))
       = Some 2"
proof -
  have ok: "\<And>n. 12.5 \<le> wind_speed_ms (example_hour n 15)
      \<and> wind_speed_ms (example_hour n 15) < 25.0 \<and> wind_gust_ms (example_hour n 15) < 25.0
      \<and> \<not> (temperature_c (example_hour n 15) \<le> 0.0
           \<and> humidity_pct (example_hour n 15) \<ge> 80)"
    by (simp add: example_hour_def)
  have bad: "\<And>n. wind_speed_ms (example_hour n 30) = 30"
    by (simp add: example_hour_def)
  have hourly: "timestamp (example_hour 3 15)
      = timestamp (example_hour 1 30) + 2 * 3600000000"
    by (simp add: example_hour_def)
  have t1: "timestamp (example_hour 1 30) = 3600000000"
    and t3: "timestamp (example_hour 3 15) = 10800000000"
    by (simp_all add: example_hour_def)
  show ?thesis
    using ok_bad_bad_ok_event [OF ok [of 0] ok [of 3] bad [of 1] bad [of 2], of 0]
      ok [of 0] ok [of 3] bad [of 1] bad [of 2] hourly t1 t3
    by (simp add: hours_between_def)
qed

section \<open>Event extraction: order of the events\<close>

lemma forecast_step_inv:
  assumes inv: "scan_inv (h # rest) st"
    and later: "\<forall>x \<in> set rest. timestamp h < timestamp x"
  shows "scan_inv rest (forecast_step now st h)"
proof -
  obtain events cur where st: "st = (events, cur)" by (cases st)
  show ?thesis
  proof (cases cur)
    case None
    show ?thesis
    proof (cases "issues (analyze_current_conditions h)")
      case Nil
      with inv st None show ?thesis
        by (auto simp: scan_inv_def forecast_step_def split: option.splits)
    next
      case (Cons i more)
      with inv st None later show ?thesis
        by (auto simp: scan_inv_def forecast_step_def split: option.splits)
    qed
  next
    case (Some ev)
    show ?thesis
    proof (cases "issues (analyze_current_conditions h) = []")
      case True
      have before: "event_start ev < timestamp h"
        using inv st Some by (simp add: scan_inv_def)
      have old: "\<forall>e \<in> set events. precedes e (closed_event now ev (timestamp h))"
        using inv st Some
        by (auto simp: scan_inv_def precedes_def closed_event_def Let_def
            split: option.splits)
      have sorted: "sorted_wrt precedes (events @ [closed_event now ev (timestamp h)])"
        using inv st old by (simp add: scan_inv_def sorted_wrt_append)
      have ends: "\<forall>e \<in> set (events @ [closed_event now ev (timestamp h)]).
              case end_time e of
                None \<Rightarrow> False
              | Some t \<Rightarrow> start_time e < t \<and> (\<forall>x \<in> set rest. t < timestamp x)"
        using inv st Some before later
        by (auto simp: scan_inv_def closed_event_def Let_def split: option.splits)
      from sorted ends st Some True show ?thesis
        by (auto simp: scan_inv_def forecast_step_def split: option.splits)
    next
      case False
      with inv st Some show ?thesis
        by (auto simp: scan_inv_def forecast_step_def split: option.splits)
    qed
  qed
qed

lemma forecast_loop_inv:
  assumes "scan_inv forecast st" and "sorted_wrt (<) (map timestamp forecast)"
  shows "scan_inv [] (forecast_loop now forecast st)"
  using assms
proof (induction forecast arbitrary: st)
  case Nil
  then show ?case by simp
next
  case (Cons h rest)
  have later: "\<forall>x \<in> set rest. timestamp h < timestamp x"
    using Cons.prems(2) by simp
  have "scan_inv rest (forecast_step now st h)"
    using forecast_step_inv [OF Cons.prems(1) later] .
  moreover have "sorted_wrt (<) (map timestamp rest)"
    using Cons.prems(2) by simp
  ultimately show ?case
    using Cons.IH by simp
qed

lemma analyze_forecast_precedes:
  assumes "sorted_wrt (<) (map timestamp forecast)"
  shows "sorted_wrt precedes (analyze_forecast forecast now)
       \<and> (\<forall>e \<in> set (butlast (analyze_forecast forecast now)). end_time e \<noteq> None)
       \<and> (\<forall>e \<in> set (analyze_forecast forecast now).
             \<forall>t. end_time e = Some t \<longrightarrow> start_time e < t)"
proof -
  obtain events cur where run: "forecast_loop now forecast ([], None) = (events, cur)"
    by (cases "forecast_loop now forecast ([], None)")
  have "scan_inv forecast ([], None)" by (simp add: scan_inv_def)
  then have inv: "scan_inv [] (events, cur)"
    using forecast_loop_inv [OF _ assms, of "([], None)" now] run by simp
  show ?thesis
  proof (cases cur)
    case None
    then have res: "analyze_forecast forecast now = events"
      using run by (simp add: analyze_forecast_def)
    have closed: "\<forall>e \<in> set events. end_time e \<noteq> None"
      using inv by (auto simp: scan_inv_def split: option.splits)
    have "\<forall>e \<in> set (butlast events). end_time e \<noteq> None"
      using closed by (meson in_set_butlastD)
    moreover have "\<forall>e \<in> set events. \<forall>t. end_time e = Some t \<longrightarrow> start_time e < t"
      using inv by (auto simp: scan_inv_def split: option.splits)
    ultimately show ?thesis
      using inv res by (simp add: scan_inv_def)
  next
    case (Some ev)
    then have res: "analyze_forecast forecast now = events @ [unfinished_event now ev]"
      using run by (simp add: analyze_forecast_def)
    have old: "\<forall>e \<in> set events. precedes e (unfinished_event now ev)"
      using inv Some
      by (auto simp: scan_inv_def precedes_def unfinished_event_def Let_def
          split: option.splits)
    have sorted: "sorted_wrt precedes (events @ [unfinished_event now ev])"
      using inv old by (simp add: scan_inv_def sorted_wrt_append)
    have closed: "\<forall>e \<in> set events. end_time e \<noteq> None"
      using inv by (auto simp: scan_inv_def split: option.splits)
    have starts: "\<forall>e \<in> set (events @ [unfinished_event now ev]).
        \<forall>t. end_time e = Some t \<longrightarrow> start_time e < t"
      using inv by (auto simp: scan_inv_def unfinished_event_def Let_def split: option.splits)
    from sorted closed starts res show ?thesis
      by simp
  qed
qed

lemma precedes_start_order:
  "sorted_wrt precedes es \<Longrightarrow> sorted_wrt (\<lambda>a b. start_time a < start_time b) es"
  by (rule sorted_wrt_mono_rel [where P = precedes])
     (auto simp: precedes_def split: option.splits)

text \<open>
  C9. For every forecast with strictly increasing timestamps, every event of the result but
  the last is closed, ends after it starts and ends no later than any later event starts
  (no two events overlap); the start times are strictly increasing; only the final event may
  have no end time; and the empty forecast gives the empty list.
\<close>

theorem events_chronological:
  assumes "sorted_wrt (<) (map timestamp forecast)"
  shows "sorted_wrt precedes (analyze_forecast forecast now)
       \<and> sorted_wrt (\<lambda>a b. start_time a < start_time b) (analyze_forecast forecast now)
       \<and> (\<forall>e \<in> set (butlast (analyze_forecast forecast now)). end_time e \<noteq> None)
       \<and> (\<forall>e \<in> set (analyze_forecast forecast now).
             \<forall>t. end_time e = Some t \<longrightarrow> start_time e < t)
       \<and> analyze_forecast [] now = []"
  using analyze_forecast_precedes [OF assms, of now]
    precedes_start_order [of "analyze_forecast forecast now"]
  by (simp add: analyze_forecast_def)

theorem events_chronological_witness:
  "sorted_wrt (<) (map timestamp
      [example_hour 0 15, example_hour 1 30, example_hour 2 15, example_hour 3 2,
       example_hour 4 2])
   \<and> map start_time (analyze_forecast
      [example_hour 0 15, example_hour 1 30, example_hour 2 15, example_hour 3 2,
       example_hour 4 2] 0) = [3600000000, 10800000000]
   \<and> map end_time (analyze_forecast
      [example_hour 0 15, example_hour 1 30, example_hour 2 15, example_hour 3 2,
       example_hour 4 2] 0) = [Some 7200000000, None]
   \<and> sorted_wrt precedes (analyze_forecast
      [example_hour 0 15, example_hour 1 30, example_hour 2 15, example_hour 3 2,
       example_hour 4 2] 0)"
  using events_chronological [of
      "[example_hour 0 15, example_hour 1 30, example_hour 2 15, example_hour 3 2,
        example_hour 4 2]" 0]
  by (simp add: forecast_defs classify_defs thresholds Let_def)

section \<open>Status aggregation: the scan of the events\<close>

lemma overall_loop_Cons:
  "overall_loop (e # es) ov =
     (if critical_soon e then
        ov\<lparr>priority_color := Red, priority_issue := Some (event_issue e)\<rparr>
      else if medium_soon e \<and> priority_color ov \<noteq> Red then
        overall_loop es (ov\<lparr>priority_color := Orange, priority_issue := Some (event_issue e)\<rparr>)
      else overall_loop es ov)"
  by (simp add: critical_soon_def medium_soon_def)

lemma overall_loop_critical:
  assumes "\<forall>x \<in> set pre. \<not> critical_soon x" and "critical_soon e"
  shows "overall_loop (pre @ e # post) ov
           = (overall_loop pre ov)\<lparr>priority_color := Red, priority_issue := Some (event_issue e)\<rparr>"
  using assms
  by (induction pre arbitrary: ov) (simp_all add: overall_loop_Cons del: overall_loop.simps(2))

lemma overall_loop_frame:
  "current (overall_loop es ov) = current ov
   \<and> upcoming_events (overall_loop es ov) = upcoming_events ov"
  by (induction es arbitrary: ov) (simp_all add: overall_loop_Cons del: overall_loop.simps(2))

lemma overall_loop_medium:
  assumes "\<forall>x \<in> set es. \<not> critical_soon x"
  shows "overall_loop es ov
           = (if priority_color ov = Red \<or> filter medium_soon es = [] then ov
              else ov\<lparr>priority_color := Orange,
                      priority_issue := Some (event_issue (last (filter medium_soon es)))\<rparr>)"
  using assms
proof (induction es arbitrary: ov)
  case Nil
  then show ?case by simp
next
  case (Cons e es)
  then have nc: "\<not> critical_soon e" and rest: "\<forall>x \<in> set es. \<not> critical_soon x"
    by simp_all
  show ?case
  proof (cases "medium_soon e \<and> priority_color ov \<noteq> Red")
    case True
    then show ?thesis
      using nc Cons.IH [OF rest] by (simp add: overall_loop_Cons del: overall_loop.simps(2))
  next
    case False
    then show ?thesis
      using nc Cons.IH [OF rest] by (auto simp add: overall_loop_Cons simp del: overall_loop.simps(2))
  qed
qed

text \<open>
  C3. For every current status and every event list: the first event that is critical with
  eta below 24 hours sets the priority colour to red and the priority issue to the issue built
  from that event (its type, its severity, and its description with the eta in a warning;
  no other key), and nothing after it is read. When no event is such a critical match, the
  medium events with eta below 12 hours decide: if the current colour is red nothing changes;
  otherwise, if there is such a medium event, the priority colour is orange and the priority
  issue is built in the same way from the last of them; with none, colour and issue are those
  of the current status (the issue is the first issue of the current status, if any).
\<close>

theorem overall_scan_order:
  "(events = pre @ e # post \<and> (\<forall>x \<in> set pre. \<not> critical_soon x) \<and> critical_soon e
      \<longrightarrow> priority_color (get_overall_status cur events) = Red
        \<and> priority_issue (get_overall_status cur events)
            = Some \<lparr>i_type = e_type e, i_severity = e_severity e,
                    i_description = Eta_warning (e_description e) (eta_hours e),
                    i_wind_speed = None, i_capacity_factor = None,
                    i_temperature = None, i_humidity = None\<rparr>)
   \<and> ((\<forall>x \<in> set events. \<not> critical_soon x) \<and> color cur = Red
      \<longrightarrow> priority_color (get_overall_status cur events) = Red
        \<and> priority_issue (get_overall_status cur events)
            = (case issues cur of [] \<Rightarrow> None | i # _ \<Rightarrow> Some i))
   \<and> ((\<forall>x \<in> set events. \<not> critical_soon x) \<and> color cur \<noteq> Red
        \<and> filter medium_soon events \<noteq> []
      \<longrightarrow> priority_color (get_overall_status cur events) = Orange
        \<and> priority_issue (get_overall_status cur events)
            = Some \<lparr>i_type = e_type (last (filter medium_soon events)),
                    i_severity = e_severity (last (filter medium_soon events)),
                    i_description =
                      Eta_warning (e_description (last (filter medium_soon events)))
                        (eta_hours (last (filter medium_soon events))),
                    i_wind_speed = None, i_capacity_factor = None,
                    i_temperature = None, i_humidity = None\<rparr>)
   \<and> ((\<forall>x \<in> set events. \<not> critical_soon x) \<and> filter medium_soon events = []
      \<longrightarrow> priority_color (get_overall_status cur events) = color cur
        \<and> priority_issue (get_overall_status cur events)
            = (case issues cur of [] \<Rightarrow> None | i # _ \<Rightarrow> Some i))
   \<and> current (get_overall_status cur events) = cur
   \<and> upcoming_events (get_overall_status cur events) = events
   \<and> (critical_soon e \<longleftrightarrow> e_severity e = Critical \<and> eta_hours e < 24)
   \<and> (medium_soon e \<longleftrightarrow> e_severity e = Medium \<and> eta_hours e < 12)"
proof -
  let ?init = "\<lparr>current = cur, upcoming_events = events, priority_color = color cur,
      priority_issue = (case issues cur of [] \<Rightarrow> None | i # _ \<Rightarrow> Some i)\<rparr>"
  have crit: "priority_color (get_overall_status cur events) = Red
        \<and> priority_issue (get_overall_status cur events)
            = Some \<lparr>i_type = e_type e, i_severity = e_severity e,
                    i_description = Eta_warning (e_description e) (eta_hours e),
                    i_wind_speed = None, i_capacity_factor = None,
                    i_temperature = None, i_humidity = None\<rparr>"
    if "events = pre @ e # post" "\<forall>x \<in> set pre. \<not> critical_soon x" "critical_soon e"
    using overall_loop_critical [OF that(2) that(3), of post ?init] that(1)
    by (simp add: get_overall_status_def event_issue_def)
  have med: "get_overall_status cur events
           = (if priority_color ?init = Red \<or> filter medium_soon events = [] then ?init
              else ?init\<lparr>priority_color := Orange,
                      priority_issue := Some (event_issue (last (filter medium_soon events)))\<rparr>)"
    if "\<forall>x \<in> set events. \<not> critical_soon x"
    using overall_loop_medium [OF that, of ?init]
    by (simp add: get_overall_status_def)
  have red: "priority_color (get_overall_status cur events) = Red
        \<and> priority_issue (get_overall_status cur events)
            = (case issues cur of [] \<Rightarrow> None | i # _ \<Rightarrow> Some i)"
    if "\<forall>x \<in> set events. \<not> critical_soon x" "color cur = Red"
    using med [OF that(1)] that(2) by simp
  have orange: "priority_color (get_overall_status cur events) = Orange
        \<and> priority_issue (get_overall_status cur events)
            = Some \<lparr>i_type = e_type (last (filter medium_soon events)),
                    i_severity = e_severity (last (filter medium_soon events)),
                    i_description =
                      Eta_warning (e_description (last (filter medium_soon events)))
                        (eta_hours (last (filter medium_soon events))),
                    i_wind_speed = None, i_capacity_factor = None,
                    i_temperature = None, i_humidity = None\<rparr>"
    if "\<forall>x \<in> set events. \<not> critical_soon x" "color cur \<noteq> Red"
      "filter medium_soon events \<noteq> []"
    using med [OF that(1)] that(2) that(3) by (simp add: event_issue_def)
  have none: "priority_color (get_overall_status cur events) = color cur
        \<and> priority_issue (get_overall_status cur events)
            = (case issues cur of [] \<Rightarrow> None | i # _ \<Rightarrow> Some i)"
    if "\<forall>x \<in> set events. \<not> critical_soon x" "filter medium_soon events = []"
    using med [OF that(1)] that(2) by simp
  have frame: "current (get_overall_status cur events) = cur
   \<and> upcoming_events (get_overall_status cur events) = events"
    using overall_loop_frame [of events ?init] by (simp add: get_overall_status_def)
  have tests: "(critical_soon e \<longleftrightarrow> e_severity e = Critical \<and> eta_hours e < 24)
   \<and> (medium_soon e \<longleftrightarrow> e_severity e = Medium \<and> eta_hours e < 12)"
    by (simp add: critical_soon_def medium_soon_def)
  from crit red orange none frame tests show ?thesis
    by blast
qed

theorem overall_scan_order_witness:
  "priority_color (get_overall_status (analyze_current_conditions (example_hour 0 8))
      [example_event Medium 5, example_event Critical 10, example_event Critical 2]) = Red
   \<and> priority_issue (get_overall_status (analyze_current_conditions (example_hour 0 8))
      [example_event Medium 5, example_event Critical 10, example_event Critical 2])
       = Some \<lparr>i_type = T_cut_out, i_severity = Critical,
               i_description = Eta_warning (High_winds 30 32) 10,
               i_wind_speed = None, i_capacity_factor = None,
               i_temperature = None, i_humidity = None\<rparr>
   \<and> priority_color (get_overall_status (analyze_current_conditions (example_hour 0 8))
      [example_event Medium 3, example_event Critical 30, example_event Medium 6,
       example_event Medium 20]) = Orange
   \<and> priority_issue (get_overall_status (analyze_current_conditions (example_hour 0 8))
      [example_event Medium 3, example_event Critical 30, example_event Medium 6,
       example_event Medium 20])
       = Some \<lparr>i_type = T_icing, i_severity = Medium,
               i_description = Eta_warning (Icing_risk_at (-1) 85) 6,
               i_wind_speed = None, i_capacity_factor = None,
               i_temperature = None, i_humidity = None\<rparr>"
  using overall_scan_order [where events = "[example_event Medium 5, example_event Critical 10,
          example_event Critical 2]"
        and pre = "[example_event Medium 5]" and e = "example_event Critical 10"
        and post = "[example_event Critical 2]"
        and cur = "analyze_current_conditions (example_hour 0 8)"]
    overall_scan_order [where events = "[example_event Medium 3, example_event Critical 30,
          example_event Medium 6, example_event Medium 20]"
        and cur = "analyze_current_conditions (example_hour 0 8)"]
  by (simp add: critical_soon_def medium_soon_def example_event_def example_hour_def
      classify_defs thresholds Let_def)

section \<open>Pressure systems: local extrema\<close>







section \<open>Pressure systems: the floor of 9 points\<close>

text \<open>
  C7. For every grid of fewer than 9 points the detector returns the empty list, as a value
  and not as an error, also when the loop over the points would have found extrema.
\<close>

theorem too_few_points:
  assumes "length grid < 9"
  shows "detect_pressure_systems grid = []"
  using assms by (simp add: detect_pressure_systems_def)

theorem too_few_points_witness:
  "length (butlast (example_grid 1020)) < 9
   \<and> systems_loop (butlast (example_grid 1020)) (butlast (example_grid 1020))
       = [low_system (example_point 50 0 10 1005), high_system (example_point 51 1 10 1020)]
   \<and> detect_pressure_systems (butlast (example_grid 1020)) = []"
proof -
  have len: "length (butlast (example_grid 1020)) < 9"
    by (simp add: example_grid_def)
  have "systems_loop (butlast (example_grid 1020)) (butlast (example_grid 1020))
       = [low_system (example_point 50 0 10 1005), high_system (example_point 51 1 10 1020)]"
    by (simp add: grid_defs Let_def)
  with len too_few_points [OF len] show ?thesis by simp
qed

section \<open>Fronts: adjacent pairs in latitude order\<close>

lemma fronts_loop_pairs:
  "fronts_loop s = concat (map (\<lambda>(p1, p2). pair_fronts p1 p2) (zip s (tl s)))"
  by (induction s rule: fronts_loop.induct) simp_all

lemma pair_fronts_cases:
  "pair_fronts p1 p2 =
     (if degree_distance p1 p2 = 0 then []
      else if \<bar>temperature p2 - temperature p1\<bar> / degree_distance p1 p2 > 1.5 then
        [\<lparr>f_type = (if temperature p2 < temperature p1 then Cold else Warm),
          f_lat = (lat p1 + lat p2) / 2, f_lon = (lon p1 + lon p2) / 2,
          f_color = (if temperature p2 < temperature p1 then ''#0000FF'' else ''#FF0000''),
          f_symbol = (if temperature p2 < temperature p1 then Triangle_down else Triangle_up),
          f_gradient = \<bar>temperature p2 - temperature p1\<bar> / degree_distance p1 p2,
          f_temp_diff = \<bar>temperature p2 - temperature p1\<bar>\<rparr>]
      else [])"
proof -
  have "0 \<le> degree_distance p1 p2"
    by (simp add: degree_distance_def)
  then have "degree_distance p1 p2 > 0 \<longleftrightarrow> degree_distance p1 p2 \<noteq> 0"
    by linarith
  then show ?thesis
    by (simp add: pair_fronts_def Let_def)
qed

lemma degree_distance_sym: "degree_distance p2 p1 = degree_distance p1 p2"
  by (simp add: degree_distance_def power2_commute)

lemma two_points_sorted:
  "sort_key lat [p1, p2] = (if lat p1 \<le> lat p2 then [p1, p2] else [p2, p1])"
  by simp

lemma two_points_fronts:
  assumes "(lat p2 - lat p1)\<^sup>2 + (lon p2 - lon p1)\<^sup>2 = 1"
  shows "\<bar>temperature p2 - temperature p1\<bar> = 2 \<longrightarrow> length (detect_fronts [p1, p2]) = 1"
    and "\<bar>temperature p2 - temperature p1\<bar> = 1 \<longrightarrow> detect_fronts [p1, p2] = []"
proof -
  have d: "degree_distance p1 p2 = 1"
    using assms by (simp add: degree_distance_def)
  then have d': "degree_distance p2 p1 = 1"
    by (simp add: degree_distance_sym)
  have t: "\<bar>temperature p1 - temperature p2\<bar> = \<bar>temperature p2 - temperature p1\<bar>"
    by simp
  show "\<bar>temperature p2 - temperature p1\<bar> = 2 \<longrightarrow> length (detect_fronts [p1, p2]) = 1"
    using d d' t by (simp add: detect_fronts_def pair_fronts_cases)
  show "\<bar>temperature p2 - temperature p1\<bar> = 1 \<longrightarrow> detect_fronts [p1, p2] = []"
    using d d' t by (simp add: detect_fronts_def pair_fronts_cases)
qed

text \<open>
  C8. The front detector sorts the grid points by latitude, ascending (the sorted list is a
  permutation of the grid), and its result is the concatenation, over the adjacent pairs of
  that list in order, of what each pair gives. The distance of a pair is the square root of
  the squared latitude difference plus the squared longitude difference. A pair at distance
  0 (the same position) gives nothing; otherwise it gives exactly one front when the absolute
  temperature difference divided by the distance exceeds 1.5: placed at the midpoint of the
  pair, cold (blue, triangle down) when the second point of the pair is colder than the first
  and warm (red, triangle up) otherwise, carrying the gradient and the temperature
  difference; and nothing when the gradient is at most 1.5. Two points at distance 1 with a
  temperature difference of 2 give one front; with a difference of 1 they give none.
\<close>

theorem fronts_of_adjacent_pairs:
  "sorted (map lat (sort_key lat grid))
   \<and> mset (sort_key lat grid) = mset grid
   \<and> detect_fronts grid
       = concat (map (\<lambda>(p1, p2). pair_fronts p1 p2)
                   (zip (sort_key lat grid) (tl (sort_key lat grid))))
   \<and> (sqrt ((lat p2 - lat p1)\<^sup>2 + (lon p2 - lon p1)\<^sup>2) = 0
        \<longrightarrow> pair_fronts p1 p2 = [])
   \<and> (lat p2 = lat p1 \<and> lon p2 = lon p1 \<longrightarrow> pair_fronts p1 p2 = [])
   \<and> (sqrt ((lat p2 - lat p1)\<^sup>2 + (lon p2 - lon p1)\<^sup>2) \<noteq> 0
        \<and> \<bar>temperature p2 - temperature p1\<bar>
            / sqrt ((lat p2 - lat p1)\<^sup>2 + (lon p2 - lon p1)\<^sup>2) > 1.5
      \<longrightarrow> pair_fronts p1 p2
          = [\<lparr>f_type = (if temperature p2 < temperature p1 then Cold else Warm),
              f_lat = (lat p1 + lat p2) / 2, f_lon = (lon p1 + lon p2) / 2,
              f_color = (if temperature p2 < temperature p1
                         then ''#0000FF'' else ''#FF0000''),
              f_symbol = (if temperature p2 < temperature p1
                          then Triangle_down else Triangle_up),
              f_gradient = \<bar>temperature p2 - temperature p1\<bar>
                 / sqrt ((lat p2 - lat p1)\<^sup>2 + (lon p2 - lon p1)\<^sup>2),
              f_temp_diff = \<bar>temperature p2 - temperature p1\<bar>\<rparr>])
   \<and> (sqrt ((lat p2 - lat p1)\<^sup>2 + (lon p2 - lon p1)\<^sup>2) \<noteq> 0
        \<and> \<not> \<bar>temperature p2 - temperature p1\<bar>
            / sqrt ((lat p2 - lat p1)\<^sup>2 + (lon p2 - lon p1)\<^sup>2) > 1.5
      \<longrightarrow> pair_fronts p1 p2 = [])
   \<and> ((lat p2 - lat p1)\<^sup>2 + (lon p2 - lon p1)\<^sup>2 = 1
        \<and> \<bar>temperature p2 - temperature p1\<bar> = 2
      \<longrightarrow> length (detect_fronts [p1, p2]) = 1)
   \<and> ((lat p2 - lat p1)\<^sup>2 + (lon p2 - lon p1)\<^sup>2 = 1
        \<and> \<bar>temperature p2 - temperature p1\<bar> = 1
      \<longrightarrow> detect_fronts [p1, p2] = [])"
proof -
  have order: "sorted (map lat (sort_key lat grid)) \<and> mset (sort_key lat grid) = mset grid"
    by simp
  have scan: "detect_fronts grid
       = concat (map (\<lambda>(p1, p2). pair_fronts p1 p2)
                   (zip (sort_key lat grid) (tl (sort_key lat grid))))"
    by (simp add: detect_fronts_def fronts_loop_pairs)
  have pair: "(sqrt ((lat p2 - lat p1)\<^sup>2 + (lon p2 - lon p1)\<^sup>2) = 0
        \<longrightarrow> pair_fronts p1 p2 = [])
   \<and> (lat p2 = lat p1 \<and> lon p2 = lon p1 \<longrightarrow> pair_fronts p1 p2 = [])
   \<and> (sqrt ((lat p2 - lat p1)\<^sup>2 + (lon p2 - lon p1)\<^sup>2) \<noteq> 0
        \<and> \<bar>temperature p2 - temperature p1\<bar>
            / sqrt ((lat p2 - lat p1)\<^sup>2 + (lon p2 - lon p1)\<^sup>2) > 1.5
      \<longrightarrow> pair_fronts p1 p2
          = [\<lparr>f_type = (if temperature p2 < temperature p1 then Cold else Warm),
              f_lat = (lat p1 + lat p2) / 2, f_lon = (lon p1 + lon p2) / 2,
              f_color = (if temperature p2 < temperature p1
                         then ''#0000FF'' else ''#FF0000''),
              f_symbol = (if temperature p2 < temperature p1
                          then Triangle_down else Triangle_up),
              f_gradient = \<bar>temperature p2 - temperature p1\<bar>
                 / sqrt ((lat p2 - lat p1)\<^sup>2 + (lon p2 - lon p1)\<^sup>2),
              f_temp_diff = \<bar>temperature p2 - temperature p1\<bar>\<rparr>])
   \<and> (sqrt ((lat p2 - lat p1)\<^sup>2 + (lon p2 - lon p1)\<^sup>2) \<noteq> 0
        \<and> \<not> \<bar>temperature p2 - temperature p1\<bar>
            / sqrt ((lat p2 - lat p1)\<^sup>2 + (lon p2 - lon p1)\<^sup>2) > 1.5
      \<longrightarrow> pair_fronts p1 p2 = [])"
    by (simp add: pair_fronts_cases degree_distance_def)
  from order scan pair two_points_fronts [of p2 p1] show ?thesis
    by blast
qed

theorem fronts_of_adjacent_pairs_witness:
  "detect_fronts [example_point 51 0 8 1010, example_point 50 0 10 1010]
     = [\<lparr>f_type = Cold, f_lat = 50.5, f_lon = 0, f_color = ''#0000FF'',
         f_symbol = Triangle_down, f_gradient = 2, f_temp_diff = 2\<rparr>]
   \<and> detect_fronts [example_point 50 0 10 1010, example_point 51 0 11 1010] = []
   \<and> detect_fronts [example_point 50 0 10 1010, example_point 52 0 12.5 1010] = []
   \<and> detect_fronts [example_point 50 0 10 1010, example_point 50 0 15 1010] = []
   \<and> detect_fronts [example_point 50 0 10 1010, example_point 50 0.5 11 1010]
     = [\<lparr>f_type = Warm, f_lat = 50, f_lon = 0.25, f_color = ''#FF0000'',
         f_symbol = Triangle_up, f_gradient = 2, f_temp_diff = 1\<rparr>]"
proof -
  have sq: "sqrt ((1::real)\<^sup>2) = 1" "sqrt ((2::real)\<^sup>2) = 2" "sqrt ((0.5::real)\<^sup>2) = 0.5"
    by simp_all
  have a: "detect_fronts [example_point 51 0 8 1010, example_point 50 0 10 1010]
     = [\<lparr>f_type = Cold, f_lat = 50.5, f_lon = 0, f_color = ''#0000FF'',
         f_symbol = Triangle_down, f_gradient = 2, f_temp_diff = 2\<rparr>]"
    using sq
      fronts_of_adjacent_pairs
        [where grid = "[example_point 51 0 8 1010, example_point 50 0 10 1010]"
           and ?p1.0 = "example_point 50 0 10 1010" and ?p2.0 = "example_point 51 0 8 1010"]
    by (simp add: example_point_def)
  have b: "detect_fronts [example_point 50 0 10 1010, example_point 51 0 11 1010] = []"
    using sq
      fronts_of_adjacent_pairs
        [where grid = "[example_point 50 0 10 1010, example_point 51 0 11 1010]"
           and ?p1.0 = "example_point 50 0 10 1010" and ?p2.0 = "example_point 51 0 11 1010"]
    by (simp add: example_point_def)
  have c: "detect_fronts [example_point 50 0 10 1010, example_point 52 0 12.5 1010] = []"
    using sq
      fronts_of_adjacent_pairs
        [where grid = "[example_point 50 0 10 1010, example_point 52 0 12.5 1010]"
           and ?p1.0 = "example_point 50 0 10 1010" and ?p2.0 = "example_point 52 0 12.5 1010"]
    by (simp add: example_point_def)
  have d: "detect_fronts [example_point 50 0 10 1010, example_point 50 0 15 1010] = []"
    using
      fronts_of_adjacent_pairs
        [where grid = "[example_point 50 0 10 1010, example_point 50 0 15 1010]"
           and ?p1.0 = "example_point 50 0 10 1010" and ?p2.0 = "example_point 50 0 15 1010"]
    by (simp add: example_point_def)
  have e: "detect_fronts [example_point 50 0 10 1010, example_point 50 0.5 11 1010]
     = [\<lparr>f_type = Warm, f_lat = 50, f_lon = 0.25, f_color = ''#FF0000'',
         f_symbol = Triangle_up, f_gradient = 2, f_temp_diff = 1\<rparr>]"
    using sq
      fronts_of_adjacent_pairs
        [where grid = "[example_point 50 0 10 1010, example_point 50 0.5 11 1010]"
           and ?p1.0 = "example_point 50 0 10 1010" and ?p2.0 = "example_point 50 0.5 11 1010"]
    by (simp add: example_point_def)
  from a b c d e show ?thesis
    by simp
qed

end
